theory Spec2Isabelle
  imports Main "HOL-Library.Char_ord" "HOL-Library.List_Lexorder"
begin

section \<open>Errors\<close>

text \<open>
  \<open>BareGitClientError\<close> carries one of the codes of \<open>ErrorCodes\<close> and a context; the
  context kept here is the one the factory methods store (\<open>errors/BareGitClientError.ts\<close>).
  An exception thrown by the isomorphic-git library itself is not a \<open>BareGitClientError\<close>;
  it is the constructor \<open>GitError\<close>, which the \<open>catch\<close> block at the end of every operation
  turns into \<open>OPERATION_FAILED\<close>. \<open>ZodError\<close> is what \<open>Schema.parse\<close> throws on an input
  that does not validate, before the \<open>try\<close> block of the operation is entered.
\<close>

datatype error =
    NOT_FOUND string
  | CONCURRENCY_ERROR string
  | MERGE_CONFLICT "string list"
  | INVALID_PATH string
  | INVALID_INPUT string
  | OPERATION_FAILED string
  | GitError string
  | ZodError string

text \<open>The \<open>catch\<close> block of an operation: a \<open>BareGitClientError\<close> is rethrown, anything
  else is wrapped as \<open>operationFailed(operation, ...)\<close>.\<close>

fun rethrow :: "string \<Rightarrow> error \<Rightarrow> error" where
  "rethrow operation (GitError msg) = OPERATION_FAILED operation"
| "rethrow operation (ZodError msg) = OPERATION_FAILED operation"
| "rethrow operation e = e"

section \<open>The object store\<close>

text \<open>
  The object store is the isomorphic-git library, an external collaborator. Its objects are
  content addressed: the OID of an object is a function of its content, and equal OIDs
  mean equal content. An OID is therefore represented by the content it addresses, so that
  \<open>readTree\<close>, \<open>readCommit\<close> and \<open>readBlob\<close> are total on the OIDs of their kind and
  comparing two OIDs compares two contents. The store is assumed closed: every OID that
  an object or a reference mentions can be read.
\<close>

datatype objtype = T_blob | T_tree | T_commit

record author =
  name :: string
  email :: string
  timestamp :: int
  timezoneOffset :: int

datatype 'o tree_entry = TreeEntry (mode: string) (path: string) (oid: 'o) (type: objtype)

datatype oid =
    BlobOid string
  | TreeOid "oid tree_entry list"
  | CommitOid (commit_tree: oid) (commit_parent: "oid list") (commit_message: string)
      (commit_author: author)

type_synonym TreeEntry = "oid tree_entry"

text \<open>The only mutable part of the store is the reference namespace; \<open>objects\<close> records
  which objects have been written (writes are append only).\<close>

record store =
  objects :: "oid set"
  refs :: "string \<Rightarrow> oid option"

definition writeBlob :: "store \<Rightarrow> string \<Rightarrow> oid \<times> store" where
  "writeBlob st blob =
     (BlobOid blob, st\<lparr>objects := insert (BlobOid blob) (objects st)\<rparr>)"

text \<open>\<open>git.writeTree\<close> serialises the entries in the canonical order of their names, so
  the OID of the written tree does not depend on the order in which the caller pushed
  the entries.\<close>

definition writeTree :: "store \<Rightarrow> TreeEntry list \<Rightarrow> oid \<times> store" where
  "writeTree st entries =
     (let t = TreeOid (sort_key path entries)
      in (t, st\<lparr>objects := insert t (objects st)\<rparr>))"

definition writeCommit :: "store \<Rightarrow> string \<Rightarrow> oid \<Rightarrow> oid list \<Rightarrow> author \<Rightarrow> oid \<times> store" where
  "writeCommit st message t parent a =
     (let c = CommitOid t parent message a
      in (c, st\<lparr>objects := insert c (objects st)\<rparr>))"

text \<open>\<open>git.readTree\<close> peels a commit to its tree and throws \<open>ObjectTypeError\<close> on a blob.\<close>

fun readTree :: "oid \<Rightarrow> error + TreeEntry list" where
  "readTree (TreeOid entries) = Inr entries"
| "readTree (CommitOid t parent message a) = readTree t"
| "readTree (BlobOid blob) = Inl (GitError ''ObjectTypeError'')"

fun readCommit :: "oid \<Rightarrow> error + oid" where
  "readCommit (CommitOid t parent message a) = Inr (CommitOid t parent message a)"
| "readCommit (TreeOid entries) = Inl (GitError ''ObjectTypeError'')"
| "readCommit (BlobOid blob) = Inl (GitError ''ObjectTypeError'')"


definition resolveRef :: "store \<Rightarrow> string \<Rightarrow> error + oid" where
  "resolveRef st ref =
     (case refs st ref of None \<Rightarrow> Inl (GitError ''NotFoundError'') | Some sha \<Rightarrow> Inr sha)"

definition writeRef :: "store \<Rightarrow> string \<Rightarrow> oid \<Rightarrow> store" where
  "writeRef st ref val = st\<lparr>refs := (refs st)(ref \<mapsto> val)\<rparr>"

section \<open>utils/concurrency.ts\<close>

definition compareAndSwap :: "store \<Rightarrow> string \<Rightarrow> oid option \<Rightarrow> oid \<Rightarrow> (error + unit) \<times> store" where
  "compareAndSwap st ref expectedSha newSha =
     (let currentSha = (case resolveRef st ref of Inl e \<Rightarrow> None | Inr sha \<Rightarrow> Some sha)
      in if currentSha \<noteq> expectedSha then (Inl (CONCURRENCY_ERROR ref), st)
         else (Inr (), writeRef st ref newSha))"

section \<open>utils/ref-resolver.ts\<close>

definition startsWith :: "string \<Rightarrow> string \<Rightarrow> bool" where
  "startsWith s p = (take (length p) s = p)"

definition normalizeRef :: "string \<Rightarrow> string" where
  "normalizeRef ref =
     (if ref = ''HEAD'' then ref
      else if startsWith ref ''refs/'' then ref
      else ''refs/heads/'' @ ref)"

section \<open>Path strings\<close>

text \<open>\<open>s.replace(/^\/+|\/+$/g, '')\<close>: the leading and the trailing run of slashes go.\<close>

definition stripSlashes :: "string \<Rightarrow> string" where
  "stripSlashes s =
     rev (dropWhile (\<lambda>c. c = CHR ''/'') (rev (dropWhile (\<lambda>c. c = CHR ''/'') s)))"

text \<open>\<open>s.split('/')\<close>: the empty string splits into one empty segment.\<close>

fun split_slash :: "string \<Rightarrow> string list" where
  "split_slash [] = [[]]"
| "split_slash (c # cs) =
     (if c = CHR ''/'' then [] # split_slash cs
      else (c # hd (split_slash cs)) # tl (split_slash cs))"

text \<open>\<open>cleanPath.split('/').filter(Boolean)\<close>: the empty segments go.\<close>

definition pathParts :: "string \<Rightarrow> string list" where
  "pathParts filePath = filter (\<lambda>seg. seg \<noteq> []) (split_slash (stripSlashes filePath))"

section \<open>utils/tree-walker.ts\<close>

definition filterTreeEntries :: "TreeEntry list \<Rightarrow> TreeEntry list" where
  "filterTreeEntries entries = filter (\<lambda>e. type e \<noteq> T_commit) entries"

record resolved =
  sha :: oid
  res_mode :: string
  res_type :: objtype

text \<open>The \<open>for\<close> loop of \<open>resolvePath\<close>, with its three loop variables.\<close>

fun resolveLoop :: "string \<Rightarrow> oid \<Rightarrow> string \<Rightarrow> objtype \<Rightarrow> string list \<Rightarrow> error + resolved" where
  "resolveLoop targetPath currentSha m t [] =
     Inr \<lparr>sha = currentSha, res_mode = m, res_type = t\<rparr>"
| "resolveLoop targetPath currentSha m t (part # parts) =
     (if t \<noteq> T_tree then Inl (INVALID_PATH targetPath)
      else case readTree currentSha of
        Inl e \<Rightarrow> Inl e
      | Inr raw \<Rightarrow>
          (case find (\<lambda>e. path e = part) (filterTreeEntries raw) of
             None \<Rightarrow> Inl (NOT_FOUND ''Path'')
           | Some entry \<Rightarrow> resolveLoop targetPath (oid entry) (mode entry) (type entry) parts))"

definition resolvePath :: "oid \<Rightarrow> string \<Rightarrow> error + resolved" where
  "resolvePath rootTreeSha targetPath =
     (let parts = pathParts targetPath
      in if parts = [] then Inr \<lparr>sha = rootTreeSha, res_mode = ''040000'', res_type = T_tree\<rparr>
         else resolveLoop targetPath rootTreeSha ''040000'' T_tree parts)"

text \<open>\<open>if (parentTreeSha) { entries = filterTreeEntries((await git.readTree(...)).tree) }\<close>:
  the raw entries of the parent, none when the parent is null.\<close>

definition readParent :: "oid option \<Rightarrow> error + TreeEntry list" where
  "readParent parentTreeSha = (case parentTreeSha of None \<Rightarrow> Inr [] | Some p \<Rightarrow> readTree p)"

text \<open>
  \<open>upsertFileInTree\<close> and \<open>removeFileFromTree\<close>. Every caller rejects an empty segment
  list before the call. On one, \<open>currentPart\<close> is \<open>undefined\<close>: the upsert pushes an entry
  without a name, which the library refuses, and the removal finds no entry of that name.
\<close>

fun upsertFileInTree :: "store \<Rightarrow> oid option \<Rightarrow> string list \<Rightarrow> oid \<Rightarrow> (error + oid) \<times> store" where
  "upsertFileInTree st parentTreeSha [] fileBlobSha =
     (case readParent parentTreeSha of
        Inl e \<Rightarrow> (Inl e, st)
      | Inr raw \<Rightarrow> (Inl (GitError ''TypeError''), st))"
| "upsertFileInTree st parentTreeSha (currentPart # remainingParts) fileBlobSha =
     (case readParent parentTreeSha of
        Inl e \<Rightarrow> (Inl e, st)
      | Inr raw \<Rightarrow>
          (let entries = filter (\<lambda>e. path e \<noteq> currentPart) (filterTreeEntries raw)
           in if remainingParts = [] then
                (case writeTree st (entries @ [TreeEntry ''100644'' currentPart fileBlobSha T_blob]) of
                   (t, st') \<Rightarrow> (Inr t, st'))
              else
                (let existingEntry = find (\<lambda>e. path e = currentPart) raw;
                     existingSubTreeSha = map_option oid existingEntry
                 in case upsertFileInTree st existingSubTreeSha remainingParts fileBlobSha of
                      (Inl e, st') \<Rightarrow> (Inl e, st')
                    | (Inr newSubTreeSha, st') \<Rightarrow>
                        (case writeTree st'
                                (entries @ [TreeEntry ''040000'' currentPart newSubTreeSha T_tree]) of
                           (t, st'') \<Rightarrow> (Inr t, st'')))))"

fun removeFileFromTree :: "store \<Rightarrow> oid option \<Rightarrow> string list \<Rightarrow> (error + oid option) \<times> store" where
  "removeFileFromTree st None parts = (Inl (NOT_FOUND ''File''), st)"
| "removeFileFromTree st (Some parentTreeSha) [] =
     (case readTree parentTreeSha of
        Inl e \<Rightarrow> (Inl e, st)
      | Inr raw \<Rightarrow> (Inl (NOT_FOUND ''File''), st))"
| "removeFileFromTree st (Some parentTreeSha) (currentPart # remainingParts) =
     (case readTree parentTreeSha of
        Inl e \<Rightarrow> (Inl e, st)
      | Inr raw \<Rightarrow>
          (let entries = filterTreeEntries raw
           in if remainingParts = [] then
                (if \<not> list_ex (\<lambda>e. path e = currentPart) entries then (Inl (NOT_FOUND ''File''), st)
                 else
                   (let entries' = filter (\<lambda>e. path e \<noteq> currentPart) entries
                    in if entries' = [] then (Inr None, st)
                       else (case writeTree st entries' of (t, st') \<Rightarrow> (Inr (Some t), st'))))
              else
                (case find (\<lambda>e. path e = currentPart) entries of
                   None \<Rightarrow> (Inl (NOT_FOUND ''Path''), st)
                 | Some existingEntry \<Rightarrow>
                     if type existingEntry \<noteq> T_tree then (Inl (NOT_FOUND ''Path''), st)
                     else
                       (case removeFileFromTree st (Some (oid existingEntry)) remainingParts of
                          (Inl e, st') \<Rightarrow> (Inl e, st')
                        | (Inr newSubTreeSha, st') \<Rightarrow>
                            (let entries' = filter (\<lambda>e. path e \<noteq> currentPart) entries @
                                   (case newSubTreeSha of
                                      None \<Rightarrow> []
                                    | Some s \<Rightarrow> [TreeEntry ''040000'' currentPart s T_tree])
                             in if entries' = [] then (Inr None, st')
                                else (case writeTree st' entries' of
                                        (t, st'') \<Rightarrow> (Inr (Some t), st'')))))))"

section \<open>Predicates of the specification\<close>


text \<open>
  The invariant of the data model: within one tree, entry names are unique (in every tree
  reachable from the OID).
\<close>

function uniqueNames :: "oid \<Rightarrow> bool" where
  "uniqueNames (BlobOid blob) = True"
| "uniqueNames (TreeOid entries) =
     (distinct (map path entries) \<and> (\<forall>e \<in> set entries. uniqueNames (oid e)))"
| "uniqueNames (CommitOid t parent message a) = uniqueNames t"
  by pat_completeness auto
termination
proof (relation "measure size")
  have child: "size (oid e) < Suc (size_list (size_tree_entry size) es)"
    if "e \<in> set es" for e :: TreeEntry and es
    using that
  proof (induction es)
    case Nil
    then show ?case by simp
  next
    case (Cons a es)
    then show ?case by (cases a; cases e) auto
  qed
  fix entries :: "TreeEntry list" and e
  assume "e \<in> set entries"
  then show "(oid e, TreeOid entries) \<in> measure size"
    using child by simp
qed simp_all

text \<open>The entry that \<open>removeFileFromTree\<close> pushes back for the subtree it descended into:
  none when the subtree became empty.\<close>

definition keptSubtree :: "string \<Rightarrow> oid option \<Rightarrow> TreeEntry list" where
  "keptSubtree cur r1 = (case r1 of None \<Rightarrow> [] | Some s \<Rightarrow> [TreeEntry ''040000'' cur s T_tree])"

section \<open>operations/merge-branches.ts\<close>

text \<open>
  A JavaScript \<open>Map\<close> keeps its keys in the order of their first insertion, and a later
  \<open>set\<close> of a key replaces its value in place; a \<open>Set\<close> keeps the first occurrence of
  each element. Both are lists here, in insertion order.
\<close>

fun mapSet :: "('k \<times> 'v) list \<Rightarrow> 'k \<Rightarrow> 'v \<Rightarrow> ('k \<times> 'v) list" where
  "mapSet [] k v = [(k, v)]"
| "mapSet ((k', v') # m) k v = (if k' = k then (k, v) # m else (k', v') # mapSet m k v)"

definition newMap :: "('k \<times> 'v) list \<Rightarrow> ('k \<times> 'v) list" where
  "newMap kvs = foldl (\<lambda>m (k, v). mapSet m k v) [] kvs"

definition newSet :: "'a list \<Rightarrow> 'a list" where
  "newSet xs = foldl (\<lambda>s x. if x \<in> set s then s else s @ [x]) [] xs"

definition readTreeEntries :: "oid option \<Rightarrow> error + (string \<times> TreeEntry) list" where
  "readTreeEntries treeSha =
     (case treeSha of
        None \<Rightarrow> Inr []
      | Some t \<Rightarrow>
          (case readTree t of
             Inl e \<Rightarrow> Inl e
           | Inr raw \<Rightarrow> Inr (newMap (map (\<lambda>e. (path e, e)) (filterTreeEntries raw)))))"

text \<open>\<open>resolutions\<close> is a plain object read as a dictionary of its own properties: the list
  of its key and value pairs. \<open>if (resolutions[p])\<close> holds for a key with a non-empty value.\<close>

type_synonym resolutions = "(string \<times> string) list"

definition hasResolution :: "resolutions \<Rightarrow> string \<Rightarrow> bool" where
  "hasResolution res p = (case map_of res p of None \<Rightarrow> False | Some content \<Rightarrow> content \<noteq> [])"

text \<open>Sizes for the termination of the merge: what the three trees, and the three maps
  read from them, still hold.\<close>

definition oidSize :: "oid option \<Rightarrow> nat" where
  "oidSize t = (case t of None \<Rightarrow> 0 | Some x \<Rightarrow> size x)"

definition mapSize :: "(string \<times> TreeEntry) list \<Rightarrow> nat" where
  "mapSize m = sum_list (map (\<lambda>(k, e). Suc (size (oid e))) m)"

lemma mapSize_mapSet: "mapSize (mapSet m k e) \<le> mapSize m + Suc (size (oid e))"
  unfolding mapSize_def by (induction m k e rule: mapSet.induct) auto

lemma mapSize_newMap_aux:
  "mapSize (foldl (\<lambda>m (k, v). mapSet m k v) m0 (map (\<lambda>e. (path e, e)) es))
     \<le> mapSize m0 + sum_list (map (\<lambda>e. Suc (size (oid e))) es)"
proof (induction es arbitrary: m0)
  case Nil
  then show ?case by simp
next
  case (Cons a es)
  have "mapSize (foldl (\<lambda>m (k, v). mapSet m k v) (mapSet m0 (path a) a) (map (\<lambda>e. (path e, e)) es))
          \<le> mapSize (mapSet m0 (path a) a) + sum_list (map (\<lambda>e. Suc (size (oid e))) es)"
    by (rule Cons.IH)
  also have "\<dots> \<le> mapSize m0 + Suc (size (oid a)) + sum_list (map (\<lambda>e. Suc (size (oid e))) es)"
    using mapSize_mapSet [of m0 "path a" a] by simp
  finally show ?case by simp
qed

lemma entries_size: "sum_list (map (\<lambda>e. Suc (size (oid e))) es) \<le> size_list (size_tree_entry size) es"
proof (induction es)
  case Nil
  then show ?case by simp
next
  case (Cons a es)
  then show ?case by (cases a) simp
qed

lemma filter_size:
  "sum_list (map (\<lambda>e. Suc (size (oid e))) (filter P es)) \<le> sum_list (map (\<lambda>e. Suc (size (oid e))) es)"
  by (induction es) auto

lemma readTree_size: "readTree t = Inr raw \<Longrightarrow> size_list (size_tree_entry size) raw < size t"
  by (induction t rule: readTree.induct) auto

lemma readTreeEntries_size:
  assumes "readTreeEntries t = Inr m"
  shows "mapSize m \<le> oidSize t"
proof (cases t)
  case None
  with assms show ?thesis by (simp add: readTreeEntries_def mapSize_def)
next
  case (Some x)
  with assms obtain raw where raw: "readTree x = Inr raw"
    and m: "m = newMap (map (\<lambda>e. (path e, e)) (filterTreeEntries raw))"
    by (auto simp: readTreeEntries_def split: sum.splits)
  have "mapSize m \<le> sum_list (map (\<lambda>e. Suc (size (oid e))) (filterTreeEntries raw))"
    unfolding m newMap_def using mapSize_newMap_aux [of "[]" "filterTreeEntries raw"]
    by (simp add: mapSize_def)
  also have "\<dots> \<le> sum_list (map (\<lambda>e. Suc (size (oid e))) raw)"
    unfolding filterTreeEntries_def by (rule filter_size)
  also have "\<dots> \<le> size_list (size_tree_entry size) raw"
    by (rule entries_size)
  also have "\<dots> < size x"
    by (rule readTree_size [OF raw])
  finally show ?thesis
    by (simp add: Some oidSize_def)
qed

lemma map_of_size: "map_of m p = Some e \<Longrightarrow> Suc (size (oid e)) \<le> mapSize m"
  unfolding mapSize_def by (induction m) (auto split: if_splits)

lemma lookup_size: "oidSize (map_option oid (map_of m p)) \<le> mapSize m"
  using map_of_size [of m p] by (cases "map_of m p") (auto simp: oidSize_def)

lemma lookup_size_strict:
  "map_of m p = Some e \<Longrightarrow> oidSize (map_option oid (map_of m p)) < mapSize m"
  using map_of_size [of m p e] by (simp add: oidSize_def)

definition entrySha :: "TreeEntry option \<Rightarrow> oid option" where
  "entrySha entry = map_option oid entry"

definition isTree :: "TreeEntry option \<Rightarrow> bool" where
  "isTree entry = (case entry of None \<Rightarrow> False | Some e \<Rightarrow> type e = T_tree)"

definition pushEntry :: "TreeEntry option \<Rightarrow> TreeEntry list" where
  "pushEntry entry = (case entry of None \<Rightarrow> [] | Some e \<Rightarrow> [e])"

function mergeTrees ::
    "store \<Rightarrow> oid option \<Rightarrow> oid option \<Rightarrow> oid option \<Rightarrow> resolutions
       \<Rightarrow> (error + oid option \<times> string list) \<times> store"
  and mergePaths ::
    "store \<Rightarrow> (string \<times> TreeEntry) list \<Rightarrow> (string \<times> TreeEntry) list \<Rightarrow> (string \<times> TreeEntry) list
       \<Rightarrow> resolutions \<Rightarrow> string list \<Rightarrow> TreeEntry list \<Rightarrow> string list
       \<Rightarrow> (error + TreeEntry list \<times> string list) \<times> store"
where
  "mergeTrees st baseTreeSha ourTreeSha theirTreeSha res =
     (case readTreeEntries baseTreeSha of
        Inl e \<Rightarrow> (Inl e, st)
      | Inr baseEntries \<Rightarrow>
     (case readTreeEntries ourTreeSha of
        Inl e \<Rightarrow> (Inl e, st)
      | Inr ourEntries \<Rightarrow>
     (case readTreeEntries theirTreeSha of
        Inl e \<Rightarrow> (Inl e, st)
      | Inr theirEntries \<Rightarrow>
          (case mergePaths st baseEntries ourEntries theirEntries res
                  (newSet (map fst baseEntries @ map fst ourEntries @ map fst theirEntries)) [] [] of
             (Inl e, st') \<Rightarrow> (Inl e, st')
           | (Inr (newEntries, conflicts), st') \<Rightarrow>
               if conflicts \<noteq> [] \<and> res = [] then (Inr (None, conflicts), st')
               else if newEntries = [] then (Inr (None, conflicts), st')
               else (case writeTree st' newEntries of
                       (treeSha, st'') \<Rightarrow> (Inr (Some treeSha, conflicts), st''))))))"
| "mergePaths st baseEntries ourEntries theirEntries res [] newEntries conflicts =
     (Inr (newEntries, conflicts), st)"
| "mergePaths st baseEntries ourEntries theirEntries res (p # ps) newEntries conflicts =
     (if isTree (map_of ourEntries p) \<or> isTree (map_of theirEntries p) then
        (case mergeTrees st (entrySha (map_of baseEntries p)) (entrySha (map_of ourEntries p))
                (entrySha (map_of theirEntries p)) res of
           (Inl e, st') \<Rightarrow> (Inl e, st')
         | (Inr (treeSha, cs), st') \<Rightarrow>
             mergePaths st' baseEntries ourEntries theirEntries res ps
               (newEntries @ (case treeSha of
                                None \<Rightarrow> []
                              | Some t \<Rightarrow> [TreeEntry ''040000'' p t T_tree]))
               (conflicts @ cs))
      else if entrySha (map_of ourEntries p) = entrySha (map_of theirEntries p) then
        mergePaths st baseEntries ourEntries theirEntries res ps
          (newEntries @ pushEntry (map_of ourEntries p)) conflicts
      else if entrySha (map_of ourEntries p) = entrySha (map_of baseEntries p)
            \<and> entrySha (map_of theirEntries p) \<noteq> entrySha (map_of baseEntries p) then
        mergePaths st baseEntries ourEntries theirEntries res ps
          (newEntries @ pushEntry (map_of theirEntries p)) conflicts
      else if entrySha (map_of ourEntries p) \<noteq> entrySha (map_of baseEntries p)
            \<and> entrySha (map_of theirEntries p) = entrySha (map_of baseEntries p) then
        mergePaths st baseEntries ourEntries theirEntries res ps
          (newEntries @ pushEntry (map_of ourEntries p)) conflicts
      else if hasResolution res p then
        (case writeBlob st (the (map_of res p)) of
           (resolvedSha, st') \<Rightarrow>
             mergePaths st' baseEntries ourEntries theirEntries res ps
               (newEntries @ [TreeEntry ''100644'' p resolvedSha T_blob]) conflicts)
      else
        mergePaths st baseEntries ourEntries theirEntries res ps newEntries (conflicts @ [p]))"
  by pat_completeness auto
termination
  apply (relation "inv_image (less_than <*lex*> less_than)
    (\<lambda>x. case x of
       Inl (st, b, ours, t, res) \<Rightarrow> (Suc (oidSize b + oidSize ours + oidSize t), 0)
     | Inr (st, bm, om, tm, res, ps, ne, cs) \<Rightarrow> (mapSize bm + mapSize om + mapSize tm, Suc (length ps)))")
  subgoal by (intro wf_inv_image wf_lex_prod wf_less_than)
  subgoal for st baseTreeSha ourTreeSha theirTreeSha res baseEntries ourEntries theirEntries
    using readTreeEntries_size [of baseTreeSha baseEntries]
      readTreeEntries_size [of ourTreeSha ourEntries]
      readTreeEntries_size [of theirTreeSha theirEntries]
    by simp
  subgoal for st baseEntries ourEntries theirEntries res p
    using lookup_size [of baseEntries p] lookup_size [of ourEntries p] lookup_size [of theirEntries p]
      lookup_size_strict [of ourEntries p] lookup_size_strict [of theirEntries p]
    by (auto simp: isTree_def entrySha_def split: option.splits)
  subgoal by simp
  subgoal by simp
  subgoal by simp
  subgoal by simp
  subgoal by simp
  subgoal by simp
  done

declare mergeTrees.simps [simp del] mergePaths.simps [simp del]

section \<open>The operations\<close>

text \<open>
  An operation is an asynchronous function: between its reading of the branch reference
  and its final update of it, other writers may run. \<open>concurrent\<close> is what they do to the
  store in that time (the identity when the operation runs alone); it is applied once, just
  before the reference update, which is where a moved reference is observable, since objects
  are only ever added. \<open>now\<close> is \<open>Math.floor(Date.now() / 1000)\<close>.
\<close>

record env =
  now :: int
  concurrent :: "store \<Rightarrow> store"

record client =
  userName :: string
  userEmail :: string

record author_input =
  in_name :: string
  in_email :: string
  in_timestamp :: "int option"
  in_timezoneOffset :: "int option"

definition buildAuthor :: "env \<Rightarrow> author_input \<Rightarrow> author" where
  "buildAuthor ev a =
     \<lparr>name = in_name a, email = in_email a,
      timestamp = (case in_timestamp a of None \<Rightarrow> now ev | Some t \<Rightarrow> t),
      timezoneOffset = (case in_timezoneOffset a of None \<Rightarrow> 0 | Some z \<Rightarrow> z)\<rparr>"

definition authorOrDefault :: "client \<Rightarrow> author_input option \<Rightarrow> author_input" where
  "authorOrDefault cl a =
     (case a of
        None \<Rightarrow> \<lparr>in_name = userName cl, in_email = userEmail cl,
                 in_timestamp = None, in_timezoneOffset = None\<rparr>
      | Some x \<Rightarrow> x)"

text \<open>The decimal digits of a number, for the default commit messages.\<close>

fun showNat :: "nat \<Rightarrow> string" where
  "showNat n =
     (if n < 10 then [char_of (48 + n)]
      else showNat (n div 10) @ [char_of (48 + n mod 10)])"

declare showNat.simps [simp del]

subsection \<open>operations/add-many-files.ts\<close>

record AddManyFilesInput =
  add_ref :: string
  add_files :: "(string \<times> string) list"
  add_commitMessage :: "string option"
  add_author :: "author_input option"

record AddManyFilesResult =
  add_commitSha :: oid
  add_treeSha :: oid
  add_blobShas :: "(string \<times> oid) list"

text \<open>The blobs of all files are written (the conversions run in parallel); then the first
  file whose path has no segment rejects the whole operation.\<close>

fun writeBlobs :: "store \<Rightarrow> (string \<times> string) list \<Rightarrow> store" where
  "writeBlobs st [] = st"
| "writeBlobs st ((filePath, content) # files) = writeBlobs (snd (writeBlob st content)) files"

fun processFiles :: "(string \<times> string) list \<Rightarrow> error + (string \<times> oid \<times> string list) list" where
  "processFiles [] = Inr []"
| "processFiles ((filePath, content) # files) =
     (if pathParts filePath = [] then Inl (INVALID_PATH filePath)
      else case processFiles files of
             Inl e \<Rightarrow> Inl e
           | Inr processed \<Rightarrow>
               Inr ((filePath, BlobOid content, pathParts filePath) # processed))"

fun upsertFiles ::
    "store \<Rightarrow> oid option \<Rightarrow> (string \<times> oid \<times> string list) list \<Rightarrow> (error + oid option) \<times> store" where
  "upsertFiles st currentTreeSha [] = (Inr currentTreeSha, st)"
| "upsertFiles st currentTreeSha ((filePath, blobSha, parts) # files) =
     (case upsertFileInTree st currentTreeSha parts blobSha of
        (Inl e, st') \<Rightarrow> (Inl e, st')
      | (Inr t, st') \<Rightarrow> upsertFiles st' (Some t) files)"

text \<open>
  \<open>AddManyFilesInputSchema\<close> is not among the sources; the input is taken as already
  parsed. The wrapper \<open>addFile\<close> relies on the schema requiring at least one file, and
  with at least one file \<open>currentTreeSha\<close> is a tree when the commit is written (the
  branch for a null tree is there for totality only); the model refuses an empty list of
  files the way the schema does, before the \<open>try\<close> block.
\<close>

definition addManyFiles ::
    "env \<Rightarrow> client \<Rightarrow> store \<Rightarrow> AddManyFilesInput \<Rightarrow> (error + AddManyFilesResult) \<times> store" where
  "addManyFiles ev cl st input =
     (if add_files input = [] then (Inl (ZodError ''files''), st)
      else
      let ref = normalizeRef (add_ref input);
          parentSha = (case resolveRef st ref of Inl e \<Rightarrow> None | Inr s \<Rightarrow> Some s)
      in case (case parentSha of
                 None \<Rightarrow> Inr None
               | Some p \<Rightarrow> (case readCommit p of
                              Inl e \<Rightarrow> Inl e
                            | Inr c \<Rightarrow> Inr (Some (commit_tree c)))) of
           Inl e \<Rightarrow> (Inl (rethrow ''addManyFiles'' e), st)
         | Inr rootTreeSha \<Rightarrow>
             (let st1 = writeBlobs st (add_files input)
              in case processFiles (add_files input) of
                   Inl e \<Rightarrow> (Inl (rethrow ''addManyFiles'' e), st1)
                 | Inr processedFiles \<Rightarrow>
                     (case upsertFiles st1 rootTreeSha processedFiles of
                        (Inl e, st2) \<Rightarrow> (Inl (rethrow ''addManyFiles'' e), st2)
                      | (Inr None, st2) \<Rightarrow> (Inl (OPERATION_FAILED ''addManyFiles''), st2)
                      | (Inr (Some currentTreeSha), st2) \<Rightarrow>
                          (let a = buildAuthor ev (authorOrDefault cl (add_author input));
                               commitMessage =
                                 (case add_commitMessage input of
                                    Some m \<Rightarrow> m
                                  | None \<Rightarrow>
                                      ''Add '' @ showNat (length (add_files input)) @ '' file'' @
                                      (if length (add_files input) = 1 then '''' else ''s''))
                           in case writeCommit st2 commitMessage currentTreeSha
                                     (case parentSha of None \<Rightarrow> [] | Some p \<Rightarrow> [p]) a of
                                (commitSha, st3) \<Rightarrow>
                                  (case compareAndSwap (concurrent ev st3) ref parentSha commitSha of
                                     (Inl e, st4) \<Rightarrow> (Inl (rethrow ''addManyFiles'' e), st4)
                                   | (Inr u, st4) \<Rightarrow>
                                       (Inr \<lparr>add_commitSha = commitSha,
                                             add_treeSha = currentTreeSha,
                                             add_blobShas =
                                               map (\<lambda>(filePath, blobSha, parts). (filePath, blobSha))
                                                 processedFiles\<rparr>,
                                        st4))))))"

subsection \<open>operations/remove-many-files.ts\<close>

record RemoveManyFilesInput =
  rm_ref :: string
  rm_filePaths :: "string list"
  rm_commitMessage :: "string option"
  rm_author :: "author_input option"

record RemoveManyFilesResult =
  rm_commitSha :: oid
  rm_treeSha :: "oid option"
  rm_filesRemoved :: nat

fun preparePaths :: "string list \<Rightarrow> error + (string \<times> string list) list" where
  "preparePaths [] = Inr []"
| "preparePaths (filePath # filePaths) =
     (if pathParts filePath = [] then Inl (INVALID_PATH filePath)
      else case preparePaths filePaths of
             Inl e \<Rightarrow> Inl e
           | Inr prepared \<Rightarrow> Inr ((filePath, pathParts filePath) # prepared))"

fun removeFiles ::
    "store \<Rightarrow> oid option \<Rightarrow> (string \<times> string list) list \<Rightarrow> (error + oid option) \<times> store" where
  "removeFiles st currentTreeSha [] = (Inr currentTreeSha, st)"
| "removeFiles st currentTreeSha ((filePath, parts) # files) =
     (if currentTreeSha = None then (Inl (OPERATION_FAILED ''removeManyFiles''), st)
      else case removeFileFromTree st currentTreeSha parts of
             (Inl e, st') \<Rightarrow> (Inl e, st')
           | (Inr t, st') \<Rightarrow> removeFiles st' t files)"

definition removeManyFiles ::
    "env \<Rightarrow> client \<Rightarrow> store \<Rightarrow> RemoveManyFilesInput \<Rightarrow> (error + RemoveManyFilesResult) \<times> store" where
  "removeManyFiles ev cl st input =
     (let ref = normalizeRef (rm_ref input)
      in if \<not> distinct (rm_filePaths input) then (Inl (INVALID_INPUT ''filePaths''), st)
         else case resolveRef st ref of
           Inl e \<Rightarrow> (Inl (rethrow ''removeManyFiles'' e), st)
         | Inr parentSha \<Rightarrow>
         (case readCommit parentSha of
            Inl e \<Rightarrow> (Inl (rethrow ''removeManyFiles'' e), st)
          | Inr c \<Rightarrow>
          (case preparePaths (rm_filePaths input) of
             Inl e \<Rightarrow> (Inl (rethrow ''removeManyFiles'' e), st)
           | Inr preparedPaths \<Rightarrow>
           (case removeFiles st (Some (commit_tree c)) preparedPaths of
              (Inl e, st1) \<Rightarrow> (Inl (rethrow ''removeManyFiles'' e), st1)
            | (Inr currentTreeSha, st1) \<Rightarrow>
                (let a = buildAuthor ev (authorOrDefault cl (rm_author input));
                     commitMessage =
                       (case rm_commitMessage input of
                          Some m \<Rightarrow> m
                        | None \<Rightarrow>
                            ''Remove '' @ showNat (length (rm_filePaths input)) @ '' file'' @
                            (if length (rm_filePaths input) = 1 then '''' else ''s''))
                 in case (case currentTreeSha of
                            Some t \<Rightarrow> (t, st1)
                          | None \<Rightarrow> writeTree st1 []) of
                      (finalTreeSha, st2) \<Rightarrow>
                        (case writeCommit st2 commitMessage finalTreeSha [parentSha] a of
                           (commitSha, st3) \<Rightarrow>
                             (case compareAndSwap (concurrent ev st3) ref (Some parentSha) commitSha of
                                (Inl e, st4) \<Rightarrow> (Inl (rethrow ''removeManyFiles'' e), st4)
                              | (Inr u, st4) \<Rightarrow>
                                  (Inr \<lparr>rm_commitSha = commitSha,
                                        rm_treeSha = currentTreeSha,
                                        rm_filesRemoved = length (rm_filePaths input)\<rparr>,
                                   st4))))))))"

subsection \<open>operations/merge-branches.ts: mergeBranches\<close>

record MergeBranchesInput =
  mb_sourceBranch :: string
  mb_destinationBranch :: string
  mb_resolutions :: "resolutions option"
  mb_commitMessage :: "string option"
  mb_author :: "author_input option"

record MergeBranchesResult =
  mb_commitSha :: oid
  mb_treeSha :: oid
  mb_conflicts :: "string list option"

text \<open>
  \<open>git.findMergeBase\<close> belongs to the object store: the common ancestors of two commits. It
  is a parameter of the operation.
\<close>

definition mergeBranches ::
    "(oid \<Rightarrow> oid \<Rightarrow> oid list) \<Rightarrow> env \<Rightarrow> client \<Rightarrow> store \<Rightarrow> MergeBranchesInput
       \<Rightarrow> (error + MergeBranchesResult) \<times> store" where
  "mergeBranches findMergeBase ev cl st input =
     (let sourceRef = normalizeRef (mb_sourceBranch input);
          destRef = normalizeRef (mb_destinationBranch input)
      in case resolveRef st sourceRef of
           Inl e \<Rightarrow> (Inl (rethrow ''mergeBranches'' e), st)
         | Inr sourceSha \<Rightarrow>
         (case resolveRef st destRef of
            Inl e \<Rightarrow> (Inl (rethrow ''mergeBranches'' e), st)
          | Inr destSha \<Rightarrow>
          (case findMergeBase destSha sourceSha of
             [] \<Rightarrow> (Inl (OPERATION_FAILED ''mergeBranches''), st)
           | baseSha # others \<Rightarrow>
           (case readCommit baseSha of
              Inl e \<Rightarrow> (Inl (rethrow ''mergeBranches'' e), st)
            | Inr baseCommit \<Rightarrow>
            (case readCommit sourceSha of
               Inl e \<Rightarrow> (Inl (rethrow ''mergeBranches'' e), st)
             | Inr sourceCommit \<Rightarrow>
             (case readCommit destSha of
                Inl e \<Rightarrow> (Inl (rethrow ''mergeBranches'' e), st)
              | Inr destCommit \<Rightarrow>
              (case mergeTrees st (Some (commit_tree baseCommit)) (Some (commit_tree destCommit))
                      (Some (commit_tree sourceCommit))
                      (case mb_resolutions input of None \<Rightarrow> [] | Some r \<Rightarrow> r) of
                 (Inl e, st1) \<Rightarrow> (Inl (rethrow ''mergeBranches'' e), st1)
               | (Inr (treeSha, conflicts), st1) \<Rightarrow>
                   if conflicts \<noteq> [] \<and> mb_resolutions input = None
                   then (Inl (MERGE_CONFLICT conflicts), st1)
                   else
                     (case treeSha of
                        None \<Rightarrow> (Inl (OPERATION_FAILED ''mergeBranches''), st1)
                      | Some t \<Rightarrow>
                          (let a = buildAuthor ev (authorOrDefault cl (mb_author input));
                               commitMessage =
                                 (case mb_commitMessage input of
                                    Some m \<Rightarrow> m
                                  | None \<Rightarrow>
                                      ''Merge branch '' @ [CHR 0x27] @ mb_sourceBranch input @
                                      [CHR 0x27] @ '' into '' @ [CHR 0x27] @
                                      mb_destinationBranch input @ [CHR 0x27])
                           in case writeCommit st1 commitMessage t [destSha, sourceSha] a of
                                (mergeCommitSha, st2) \<Rightarrow>
                                  (Inr \<lparr>mb_commitSha = mergeCommitSha,
                                        mb_treeSha = t,
                                        mb_conflicts =
                                          (if conflicts \<noteq> [] then Some conflicts else None)\<rparr>,
                                   writeRef (concurrent ev st2) destRef mergeCommitSha))))))))))"

section \<open>Example repository\<close>

definition exampleTree :: oid where
  "exampleTree =
     TreeOid [TreeEntry ''100644'' ''README.md'' (BlobOid ''hello'') T_blob,
              TreeEntry ''040000'' ''src''
                (TreeOid [TreeEntry ''100644'' ''a.txt'' (BlobOid ''x'') T_blob,
                          TreeEntry ''100644'' ''b.txt'' (BlobOid ''y'') T_blob]) T_tree]"

definition emptyStore :: store where
  "emptyStore = \<lparr>objects = {}, refs = Map.empty\<rparr>"



definition exampleAuthor :: author where
  "exampleAuthor = \<lparr>name = ''Ada'', email = ''ada@example.org'', timestamp = 0, timezoneOffset = 0\<rparr>"

definition exampleClient :: client where
  "exampleClient = \<lparr>userName = ''Ada'', userEmail = ''ada@example.org''\<rparr>"

definition alone :: env where
  "alone = \<lparr>now = 0, concurrent = (\<lambda>st. st)\<rparr>"


subsection \<open>operations/list-files.ts\<close>








text \<open>Two branches that both changed \<open>src/a.txt\<close> of the example tree, a branch that
  changed \<open>src/b.txt\<close> only, and a writer that moves \<open>main\<close> while an operation runs.\<close>

definition baseCommit :: oid where
  "baseCommit = CommitOid exampleTree [] ''init'' exampleAuthor"

definition oursTree :: oid where
  "oursTree =
     TreeOid [TreeEntry ''100644'' ''README.md'' (BlobOid ''hello'') T_blob,
              TreeEntry ''040000'' ''src''
                (TreeOid [TreeEntry ''100644'' ''a.txt'' (BlobOid ''ours'') T_blob,
                          TreeEntry ''100644'' ''b.txt'' (BlobOid ''y'') T_blob]) T_tree]"

definition theirsTree :: oid where
  "theirsTree =
     TreeOid [TreeEntry ''100644'' ''README.md'' (BlobOid ''hello'') T_blob,
              TreeEntry ''040000'' ''src''
                (TreeOid [TreeEntry ''100644'' ''a.txt'' (BlobOid ''theirs'') T_blob,
                          TreeEntry ''100644'' ''b.txt'' (BlobOid ''y'') T_blob]) T_tree]"

definition otherTree :: oid where
  "otherTree =
     TreeOid [TreeEntry ''100644'' ''README.md'' (BlobOid ''hello'') T_blob,
              TreeEntry ''040000'' ''src''
                (TreeOid [TreeEntry ''100644'' ''a.txt'' (BlobOid ''x'') T_blob,
                          TreeEntry ''100644'' ''b.txt'' (BlobOid ''theirs'') T_blob]) T_tree]"

definition oursCommit :: oid where
  "oursCommit = CommitOid oursTree [baseCommit] ''ours'' exampleAuthor"

definition theirsCommit :: oid where
  "theirsCommit = CommitOid theirsTree [baseCommit] ''theirs'' exampleAuthor"

definition otherCommit :: oid where
  "otherCommit = CommitOid otherTree [baseCommit] ''other'' exampleAuthor"

definition racedCommit :: oid where
  "racedCommit = CommitOid exampleTree [oursCommit] ''raced'' exampleAuthor"

definition conflictStore :: store where
  "conflictStore = \<lparr>objects = {},
     refs = Map.empty(''refs/heads/main'' \<mapsto> oursCommit, ''refs/heads/feature'' \<mapsto> theirsCommit)\<rparr>"

definition cleanStore :: store where
  "cleanStore = \<lparr>objects = {},
     refs = Map.empty(''refs/heads/main'' \<mapsto> oursCommit, ''refs/heads/feature'' \<mapsto> otherCommit)\<rparr>"

definition racing :: env where
  "racing = \<lparr>now = 0, concurrent = (\<lambda>st. writeRef st ''refs/heads/main'' racedCommit)\<rparr>"

definition mergeFeature :: MergeBranchesInput where
  "mergeFeature = \<lparr>mb_sourceBranch = ''feature'', mb_destinationBranch = ''main'',
     mb_resolutions = None, mb_commitMessage = None, mb_author = None\<rparr>"

definition mainStore :: store where
  "mainStore = \<lparr>objects = {}, refs = Map.empty(''refs/heads/main'' \<mapsto> baseCommit)\<rparr>"








definition fileForDirectoryTree :: oid where
  "fileForDirectoryTree =
     TreeOid [TreeEntry ''100644'' ''README.md'' (BlobOid ''hello'') T_blob,
              TreeEntry ''100644'' ''src'' (BlobOid ''now a file'') T_blob]"

section \<open>The compare-and-swap controller\<close>



section \<open>Round trip: resolving an upserted file\<close>

lemma find_as_filter:
  "find P xs = (case filter P xs of [] \<Rightarrow> None | x # ys \<Rightarrow> Some x)"
  by (induction xs) auto

lemma find_written_entry:
  assumes "type new \<noteq> T_commit"
  shows "find (\<lambda>e. path e = path new)
           (filterTreeEntries (sort_key path (filter (\<lambda>e. path e \<noteq> path new) es @ [new])))
         = Some new"
proof -
  have "filter (\<lambda>e. path e = path new)
          (filterTreeEntries (sort_key path (filter (\<lambda>e. path e \<noteq> path new) es @ [new])))
        = filter (\<lambda>e. type e \<noteq> T_commit)
            (filter (\<lambda>e. path e = path new)
               (sort_key path (filter (\<lambda>e. path e \<noteq> path new) es @ [new])))"
    unfolding filterTreeEntries_def filter_filter by (rule filter_cong) auto
  also have "\<dots> = filter (\<lambda>e. type e \<noteq> T_commit)
            (filter (\<lambda>e. path e = path new) (filter (\<lambda>e. path e \<noteq> path new) es @ [new]))"
    by (simp only: sort_key_stable)
  also have "\<dots> = [new]"
    using assms by (simp add: filter_empty_conv)
  finally show ?thesis
    by (simp add: find_as_filter)
qed




section \<open>Structural sharing\<close>

lemma uniqueNames_readTree:
  "uniqueNames root \<Longrightarrow> readTree root = Inr raw \<Longrightarrow>
     distinct (map path raw) \<and> (\<forall>e \<in> set raw. uniqueNames (oid e))"
  by (induction root rule: readTree.induct) auto

lemma find_sibling:
  assumes "x \<noteq> y" and "\<forall>e \<in> set extra. path e = y"
  shows "find (\<lambda>e. path e = x)
           (filterTreeEntries (sort_key path (filter (\<lambda>e. path e \<noteq> y) (filterTreeEntries raw) @ extra)))
         = find (\<lambda>e. path e = x) (filterTreeEntries raw)"
proof -
  let ?es = "filter (\<lambda>e. path e \<noteq> y) (filterTreeEntries raw) @ extra"
  have "filter (\<lambda>e. path e = x) (filterTreeEntries (sort_key path ?es))
        = filter (\<lambda>e. type e \<noteq> T_commit) (filter (\<lambda>e. path e = x) (sort_key path ?es))"
    unfolding filterTreeEntries_def filter_filter by (rule filter_cong) auto
  also have "\<dots> = filter (\<lambda>e. type e \<noteq> T_commit) (filter (\<lambda>e. path e = x) ?es)"
    by (simp only: sort_key_stable)
  also have "filter (\<lambda>e. path e = x) ?es = filter (\<lambda>e. path e = x) (filterTreeEntries raw)"
  proof -
    have "filter (\<lambda>e. path e = x) extra = []"
      using assms by (auto simp: filter_empty_conv)
    moreover have "filter (\<lambda>e. path e = x) (filter (\<lambda>e. path e \<noteq> y) (filterTreeEntries raw))
                     = filter (\<lambda>e. path e = x) (filterTreeEntries raw)"
      unfolding filter_filter using assms(1) by (intro filter_cong) auto
    ultimately show ?thesis by simp
  qed
  also have "filter (\<lambda>e. type e \<noteq> T_commit) (filter (\<lambda>e. path e = x) (filterTreeEntries raw))
               = filter (\<lambda>e. path e = x) (filterTreeEntries raw)"
    unfolding filterTreeEntries_def filter_filter by (rule filter_cong) auto
  finally show ?thesis
    by (simp add: find_as_filter)
qed

lemma resolveLoop_mode:
  "resolveLoop tp s m t (p # ps) = resolveLoop tp s m' t (p # ps)"
  by simp

lemma find_unique:
  assumes "distinct (map path raw)"
    and "find (\<lambda>e. path e = c) (filterTreeEntries raw) = Some e"
  shows "find (\<lambda>e. path e = c) raw = Some e"
proof -
  from assms(2) have "e \<in> set raw" "path e = c"
    by (auto simp: find_Some_iff filterTreeEntries_def dest: nth_mem)
  moreover obtain e' where e': "find (\<lambda>e. path e = c) raw = Some e'"
    using calculation by (cases "find (\<lambda>e. path e = c) raw") (auto simp: find_None_iff)
  then have "e' \<in> set raw" "path e' = c"
    by (auto simp: find_Some_iff)
  ultimately have "e' = e"
    using assms(1) by (meson distinct_map inj_onD)
  with e' show ?thesis by simp
qed

lemma upsert_inner:
  assumes "remaining \<noteq> []" and "readParent parent = Inr raw"
    and "upsertFileInTree st parent (cur # remaining) b = (Inr t, st')"
  shows "\<exists>t1 st1.
           upsertFileInTree st (map_option oid (find (\<lambda>e. path e = cur) raw)) remaining b = (Inr t1, st1)
         \<and> t = TreeOid (sort_key path (filter (\<lambda>e. path e \<noteq> cur) (filterTreeEntries raw) @
                   [TreeEntry ''040000'' cur t1 T_tree]))"
  using assms
  by (auto simp: writeTree_def Let_def split: sum.splits prod.splits)

lemma upsert_frame:
  assumes "uniqueNames root" and "x \<noteq> y"
    and "upsertFileInTree st (Some root) (common @ y # restP) b = (Inr t, st')"
    and "resolveLoop tp root m T_tree (common @ x # restQ) = Inr r"
  shows "resolveLoop tp t m' T_tree (common @ x # restQ) = Inr r"
  using assms
proof (induction common arbitrary: root st t st' m m')
  case Nil
  from Nil.prems(4) obtain raw where raw: "readTree root = Inr raw"
    by (auto split: sum.splits)
  from Nil.prems(3) raw obtain extra where
    t: "t = TreeOid (sort_key path (filter (\<lambda>e. path e \<noteq> y) (filterTreeEntries raw) @ extra))"
    and extra: "\<forall>e \<in> set extra. path e = y"
    by (cases "restP = []")
       (auto simp: readParent_def writeTree_def Let_def split: sum.splits prod.splits)
  show ?case
    using Nil.prems(4) raw find_sibling [OF Nil.prems(2) extra, of raw]
    by (simp add: t)
next
  case (Cons c common)
  from Cons.prems(4) obtain raw where raw: "readTree root = Inr raw"
    by (auto split: sum.splits)
  from Cons.prems(4) raw obtain e where
    e: "find (\<lambda>e. path e = c) (filterTreeEntries raw) = Some e"
    and ty: "type e = T_tree"
    and old: "resolveLoop tp (oid e) (mode e) T_tree (common @ x # restQ) = Inr r"
    by (cases common) (auto split: option.splits if_splits)
  from uniqueNames_readTree [OF Cons.prems(1) raw]
  have dist: "distinct (map path raw)" and sub: "\<forall>e \<in> set raw. uniqueNames (oid e)"
    by blast+
  from find_unique [OF dist e] have e': "find (\<lambda>e. path e = c) raw = Some e" .
  then have "e \<in> set raw"
    by (auto simp: find_Some_iff)
  with sub have un: "uniqueNames (oid e)"
    by blast
  have "upsertFileInTree st (Some root) (c # (common @ y # restP)) b = (Inr t, st')"
    using Cons.prems(3) by simp
  from upsert_inner [OF _ _ this, of raw] raw e' obtain t1 st1 where
    up: "upsertFileInTree st (Some (oid e)) (common @ y # restP) b = (Inr t1, st1)"
    and t: "t = TreeOid (sort_key path (filter (\<lambda>e. path e \<noteq> c) (filterTreeEntries raw) @
                 [TreeEntry ''040000'' c t1 T_tree]))"
    by (auto simp: readParent_def)
  from Cons.IH [OF un Cons.prems(2) up old]
  have new: "resolveLoop tp t1 ''040000'' T_tree (common @ x # restQ) = Inr r" .
  have "resolveLoop tp t m' T_tree (c # (common @ x # restQ))
          = resolveLoop tp t1 ''040000'' T_tree (common @ x # restQ)"
    using find_written_entry [of "TreeEntry ''040000'' c t1 T_tree" "filterTreeEntries raw"]
    by (subst resolveLoop.simps(2)) (simp add: t del: resolveLoop.simps)
  with new show ?case by simp
qed

lemma remove_last:
  assumes "readTree parent = Inr raw"
    and "removeFileFromTree st (Some parent) [cur] = (Inr res, st')"
  shows "list_ex (\<lambda>e. path e = cur) (filterTreeEntries raw)
       \<and> (if filter (\<lambda>e. path e \<noteq> cur) (filterTreeEntries raw) = [] then res = None \<and> st' = st
          else res = Some (TreeOid (sort_key path (filter (\<lambda>e. path e \<noteq> cur) (filterTreeEntries raw))))
             \<and> st' = snd (writeTree st (filter (\<lambda>e. path e \<noteq> cur) (filterTreeEntries raw))))"
  using assms
  by (auto simp: writeTree_def Let_def split: if_splits)

lemma remove_inner:
  assumes "remaining \<noteq> []" and "readTree parent = Inr raw"
    and "removeFileFromTree st (Some parent) (cur # remaining) = (Inr res, st')"
  shows "\<exists>e r1 st1.
           find (\<lambda>e. path e = cur) (filterTreeEntries raw) = Some e \<and> type e = T_tree
         \<and> removeFileFromTree st (Some (oid e)) remaining = (Inr r1, st1)
         \<and> res = (if filter (\<lambda>e. path e \<noteq> cur) (filterTreeEntries raw) @ keptSubtree cur r1 = []
                  then None
                  else Some (TreeOid (sort_key path
                         (filter (\<lambda>e. path e \<noteq> cur) (filterTreeEntries raw) @ keptSubtree cur r1))))
         \<and> st' = (if filter (\<lambda>e. path e \<noteq> cur) (filterTreeEntries raw) @ keptSubtree cur r1 = []
                  then st1
                  else snd (writeTree st1
                         (filter (\<lambda>e. path e \<noteq> cur) (filterTreeEntries raw) @ keptSubtree cur r1)))"
proof -
  from assms obtain e where e: "find (\<lambda>e. path e = cur) (filterTreeEntries raw) = Some e"
    by (cases "find (\<lambda>e. path e = cur) (filterTreeEntries raw)") auto
  from assms e have ty: "type e = T_tree"
    by (auto split: if_splits)
  obtain x st1 where rec: "removeFileFromTree st (Some (oid e)) remaining = (x, st1)"
    by fastforce
  from assms e ty rec obtain r1 where x: "x = Inr r1"
    by (cases x) auto
  show ?thesis
    using assms e ty rec x
    by (intro exI [of _ e] exI [of _ r1] exI [of _ st1])
       (cases r1; simp add: writeTree_def Let_def keptSubtree_def split: if_splits)
qed

lemma remove_shape:
  assumes "readTree parent = Inr raw"
    and "removeFileFromTree st (Some parent) (cur # remaining) = (Inr res, st')"
  shows "\<exists>extra. (\<forall>e \<in> set extra. path e = cur)
           \<and> res = (if filter (\<lambda>e. path e \<noteq> cur) (filterTreeEntries raw) @ extra = [] then None
                    else Some (TreeOid (sort_key path
                           (filter (\<lambda>e. path e \<noteq> cur) (filterTreeEntries raw) @ extra))))"
proof (cases "remaining = []")
  case True
  with remove_last [OF assms(1), of st cur res st'] assms(2)
  have "res = (if filter (\<lambda>e. path e \<noteq> cur) (filterTreeEntries raw) @ [] = [] then None
               else Some (TreeOid (sort_key path
                      (filter (\<lambda>e. path e \<noteq> cur) (filterTreeEntries raw) @ []))))"
    by (simp split: if_splits)
  then show ?thesis
    by (intro exI [of _ "[]"]) simp
next
  case False
  from remove_inner [OF False assms] obtain r1 where
    "res = (if filter (\<lambda>e. path e \<noteq> cur) (filterTreeEntries raw) @ keptSubtree cur r1 = [] then None
            else Some (TreeOid (sort_key path
                   (filter (\<lambda>e. path e \<noteq> cur) (filterTreeEntries raw) @ keptSubtree cur r1))))"
    by blast
  moreover have "\<forall>e \<in> set (keptSubtree cur r1). path e = cur"
    by (cases r1) (simp_all add: keptSubtree_def)
  ultimately show ?thesis
    by blast
qed

lemma remove_frame:
  assumes "x \<noteq> y"
    and "removeFileFromTree st (Some root) (common @ y # restP) = (Inr res, st')"
    and "resolveLoop tp root m T_tree (common @ x # restQ) = Inr r"
  shows "\<exists>t. res = Some t \<and> resolveLoop tp t m' T_tree (common @ x # restQ) = Inr r"
  using assms
proof (induction common arbitrary: root st res st' m m')
  case Nil
  from Nil.prems(3) obtain raw where raw: "readTree root = Inr raw"
    by (auto split: sum.splits)
  from Nil.prems(3) raw obtain ex where ex: "find (\<lambda>e. path e = x) (filterTreeEntries raw) = Some ex"
    by (auto split: option.splits)
  then have "ex \<in> set (filter (\<lambda>e. path e \<noteq> y) (filterTreeEntries raw))"
    using Nil.prems(1) by (auto simp: find_Some_iff)
  then have ne: "filter (\<lambda>e. path e \<noteq> y) (filterTreeEntries raw) \<noteq> []"
    by (auto simp: filter_empty_conv)
  have "removeFileFromTree st (Some root) (y # restP) = (Inr res, st')"
    using Nil.prems(2) by simp
  from remove_shape [OF raw this] obtain extra where
    extra: "\<forall>e \<in> set extra. path e = y"
    and "res = (if filter (\<lambda>e. path e \<noteq> y) (filterTreeEntries raw) @ extra = [] then None
                    else Some (TreeOid (sort_key path
                           (filter (\<lambda>e. path e \<noteq> y) (filterTreeEntries raw) @ extra))))"
    by blast
  with ne have t: "res = Some (TreeOid (sort_key path
                  (filter (\<lambda>e. path e \<noteq> y) (filterTreeEntries raw) @ extra)))"
    by simp
  show ?case
    using Nil.prems(3) raw find_sibling [OF Nil.prems(1) extra, of raw]
    by (simp add: t)
next
  case (Cons c common)
  from Cons.prems(3) obtain raw where raw: "readTree root = Inr raw"
    by (auto split: sum.splits)
  from Cons.prems(3) raw obtain e where
    e: "find (\<lambda>e. path e = c) (filterTreeEntries raw) = Some e"
    and old: "resolveLoop tp (oid e) (mode e) T_tree (common @ x # restQ) = Inr r"
    by (cases common) (auto split: option.splits if_splits)
  have "removeFileFromTree st (Some root) (c # (common @ y # restP)) = (Inr res, st')"
    using Cons.prems(2) by simp
  from remove_inner [OF _ raw this] e obtain r1 st1 where
    rm: "removeFileFromTree st (Some (oid e)) (common @ y # restP) = (Inr r1, st1)"
    and res: "res = (if filter (\<lambda>e. path e \<noteq> c) (filterTreeEntries raw) @ keptSubtree c r1 = [] then None
            else Some (TreeOid (sort_key path
                   (filter (\<lambda>e. path e \<noteq> c) (filterTreeEntries raw) @ keptSubtree c r1))))"
    by force
  from Cons.IH [OF Cons.prems(1) rm old] obtain t1 where r1: "r1 = Some t1"
    and new: "resolveLoop tp t1 ''040000'' T_tree (common @ x # restQ) = Inr r"
    by blast
  let ?t = "TreeOid (sort_key path (filter (\<lambda>e. path e \<noteq> c) (filterTreeEntries raw) @
                    [TreeEntry ''040000'' c t1 T_tree]))"
  from res r1 have t: "res = Some ?t"
    by (simp add: keptSubtree_def)
  have "resolveLoop tp ?t m' T_tree (c # (common @ x # restQ))
          = resolveLoop tp t1 ''040000'' T_tree (common @ x # restQ)"
    using find_written_entry [of "TreeEntry ''040000'' c t1 T_tree" "filterTreeEntries raw"]
    by (subst resolveLoop.simps(2)) (simp del: resolveLoop.simps)
  with new t show ?case by simp
qed

text \<open>
  Claim C8. Let the path \<open>q\<close> leave the mutated path \<open>parts\<close> at some segment (\<open>x\<close> instead
  of \<open>y\<close>, below a common prefix), so that the entry \<open>q\<close> names is not on the way from the
  root to the leaf of \<open>parts\<close>. Whatever \<open>q\<close> resolved to before an upsert or a removal at
  \<open>parts\<close> (OID, mode and kind), it resolves to the same in the tree the mutation returns;
  a removal that leaves such an entry never returns the absent tree.
\<close>

theorem sibling_entries_unchanged:
  assumes "pathParts q = common @ x # restQ" and "parts = common @ y # restP" and "x \<noteq> y"
    and "resolvePath root q = Inr r"
  shows "(uniqueNames root \<and> upsertFileInTree st (Some root) parts b = (Inr t, st')
            \<longrightarrow> resolvePath t q = Inr r)
       \<and> (removeFileFromTree st (Some root) parts = (Inr res, st')
            \<longrightarrow> (\<exists>t'. res = Some t' \<and> resolvePath t' q = Inr r))"
proof -
  from assms(1,4) have old: "resolveLoop q root ''040000'' T_tree (common @ x # restQ) = Inr r"
    by (simp add: resolvePath_def)
  have new: "resolvePath u q = resolveLoop q u ''040000'' T_tree (common @ x # restQ)" for u
    using assms(1) by (simp add: resolvePath_def)
  show ?thesis
    unfolding new assms(2)
    using upsert_frame [OF _ assms(3) _ old] remove_frame [OF assms(3) _ old]
    by blast
qed

theorem sibling_entries_unchanged_witness:
  "pathParts ''src/a.txt'' = [''src''] @ ''a.txt'' # []
   \<and> ''a.txt'' \<noteq> ''b.txt''
   \<and> resolvePath exampleTree ''src/a.txt''
       = Inr \<lparr>sha = BlobOid ''x'', res_mode = ''100644'', res_type = T_blob\<rparr>
   \<and> uniqueNames exampleTree
   \<and> (\<exists>t st'. upsertFileInTree emptyStore (Some exampleTree) ([''src''] @ ''b.txt'' # []) (BlobOid ''z'')
                   = (Inr t, st')
         \<and> resolvePath t ''src/a.txt''
             = Inr \<lparr>sha = BlobOid ''x'', res_mode = ''100644'', res_type = T_blob\<rparr>)
   \<and> (\<exists>t st'. removeFileFromTree emptyStore (Some exampleTree) ([''src''] @ ''b.txt'' # [])
                   = (Inr (Some t), st')
         \<and> resolvePath t ''src/a.txt''
             = Inr \<lparr>sha = BlobOid ''x'', res_mode = ''100644'', res_type = T_blob\<rparr>)"
proof -
  let ?r = "\<lparr>sha = BlobOid ''x'', res_mode = ''100644'', res_type = T_blob\<rparr>"
  have q: "pathParts ''src/a.txt'' = [''src''] @ ''a.txt'' # []"
    by (simp add: pathParts_def stripSlashes_def)
  have ne: "''a.txt'' \<noteq> ''b.txt''"
    by simp
  have old: "resolvePath exampleTree ''src/a.txt'' = Inr ?r"
    by (simp add: resolvePath_def q exampleTree_def filterTreeEntries_def)
  have un: "uniqueNames exampleTree"
    by (simp add: exampleTree_def)
  obtain u su where up: "upsertFileInTree emptyStore (Some exampleTree) ([''src''] @ ''b.txt'' # [])
      (BlobOid ''z'') = (Inr u, su)"
    by (simp add: exampleTree_def readParent_def filterTreeEntries_def writeTree_def Let_def)
  obtain v sv where rm: "removeFileFromTree emptyStore (Some exampleTree) ([''src''] @ ''b.txt'' # [])
      = (Inr (Some v), sv)"
    by (simp add: exampleTree_def filterTreeEntries_def writeTree_def Let_def)
  from sibling_entries_unchanged [OF q refl ne old,
      where st = emptyStore and b = "BlobOid ''z''" and t = u and st' = su] un up
  have "resolvePath u ''src/a.txt'' = Inr ?r"
    by blast
  moreover
  from sibling_entries_unchanged [OF q refl ne old,
      where st = emptyStore and res = "Some v" and st' = sv] rm
  have "resolvePath v ''src/a.txt'' = Inr ?r"
    by blast
  ultimately have "resolvePath u ''src/a.txt'' = Inr ?r" and "resolvePath v ''src/a.txt'' = Inr ?r"
    by blast+
  with q ne old un up rm show ?thesis
    by blast
qed

section \<open>Pruning of empty directories\<close>










section \<open>Adding files to a branch that does not exist\<close>

lemma upsert_refs: "upsertFileInTree st p parts b = (r, st') \<Longrightarrow> refs st' = refs st"
proof (induction parts arbitrary: st p r st')
  case Nil
  then show ?case by (auto split: sum.splits)
next
  case (Cons cur remaining)
  show ?case
  proof (cases "readParent p")
    case (Inl e)
    with Cons.prems show ?thesis by simp
  next
    case (Inr raw)
    show ?thesis
    proof (cases "remaining = []")
      case True
      with Cons.prems Inr show ?thesis
        by (auto simp: writeTree_def Let_def)
    next
      case False
      obtain x st1 where rec: "upsertFileInTree st (map_option oid (find (\<lambda>e. path e = cur) raw))
          remaining b = (x, st1)"
        by fastforce
      from Cons.IH [OF rec] have "refs st1 = refs st" .
      with Cons.prems Inr False rec show ?thesis
        by (cases x) (auto simp: writeTree_def Let_def)
    qed
  qed
qed




lemma upsertFiles_refs: "upsertFiles st t files = (r, st') \<Longrightarrow> refs st' = refs st"
proof (induction st t files arbitrary: r st' rule: upsertFiles.induct)
  case (1 st currentTreeSha)
  then show ?case by simp
next
  case (2 st currentTreeSha filePath blobSha parts files)
  obtain x st1 where up: "upsertFileInTree st currentTreeSha parts blobSha = (x, st1)"
    by fastforce
  from upsert_refs [OF up] have r1: "refs st1 = refs st" .
  show ?case
  proof (cases x)
    case (Inl e)
    with "2.prems" up r1 show ?thesis by simp
  next
    case (Inr t)
    with "2.IH" [OF up [symmetric] Inr] "2.prems" up r1 show ?thesis
      by simp
  qed
qed












section \<open>Listing a directory\<close>










section \<open>Every committing operation and the compare-and-swap\<close>

text \<open>
  Claim C1. The claim fails for \<open>mergeBranches\<close>, which ends with \<open>git.writeRef\<close> and
  \<open>force: true\<close>. The branch \<open>feature\<close> is merged into \<open>main\<close> while another writer moves
  \<open>main\<close> from the commit the merge read at its start to a new commit. The merge succeeds
  and sets \<open>main\<close> to a merge commit whose parents are the commit it read and the source:
  the other writer's commit is no longer reachable from \<open>main\<close>. A compare-and-swap with the
  parent read at the start fails on the same store, and so does \<open>addManyFiles\<close> under the
  same interference.
\<close>

theorem mergeBranches_overwrites_moved_reference:
  "refs cleanStore ''refs/heads/main'' = Some oursCommit
   \<and> refs (concurrent racing cleanStore) ''refs/heads/main'' = Some racedCommit
   \<and> (case mergeBranches (\<lambda>a b. [baseCommit]) racing exampleClient cleanStore mergeFeature of
        (Inl e, st') \<Rightarrow> False
      | (Inr res, st') \<Rightarrow>
          refs st' ''refs/heads/main'' = Some (mb_commitSha res)
        \<and> commit_parent (mb_commitSha res) = [oursCommit, otherCommit]
        \<and> racedCommit \<notin> set (commit_parent (mb_commitSha res)))
   \<and> fst (compareAndSwap (concurrent racing cleanStore) ''refs/heads/main'' (Some oursCommit)
          racedCommit) = Inl (CONCURRENCY_ERROR ''refs/heads/main'')
   \<and> fst (addManyFiles racing exampleClient cleanStore
           \<lparr>add_ref = ''main'', add_files = [(''src/c.txt'', ''z'')],
            add_commitMessage = None, add_author = None\<rparr>)
        = Inl (CONCURRENCY_ERROR ''refs/heads/main'')"
  by code_simp

section \<open>Path segments\<close>

lemma split_slash_segments: "seg \<in> set (split_slash s) \<Longrightarrow> CHR ''/'' \<notin> set seg"
proof (induction s arbitrary: seg)
  case Nil
  then show ?case by simp
next
  case (Cons c cs)
  have ne: "split_slash cs \<noteq> []"
    by (cases cs) auto
  show ?case
  proof (cases "c = CHR ''/''")
    case True
    with Cons show ?thesis by auto
  next
    case False
    from Cons.prems False have "seg = c # hd (split_slash cs) \<or> seg \<in> set (tl (split_slash cs))"
      by simp
    then show ?thesis
    proof
      assume "seg = c # hd (split_slash cs)"
      with False Cons.IH [of "hd (split_slash cs)"] ne show ?thesis
        by simp
    next
      assume "seg \<in> set (tl (split_slash cs))"
      with Cons.IH [of seg] show ?thesis
        by (auto dest: list.set_sel(2) [OF ne])
    qed
  qed
qed

lemma pathParts_segments: "seg \<in> set (pathParts p) \<Longrightarrow> seg \<noteq> [] \<and> CHR ''/'' \<notin> set seg"
  by (auto simp: pathParts_def dest: split_slash_segments)

lemma readCommit_error: "readCommit x = Inl e \<Longrightarrow> e = GitError ''ObjectTypeError''"
  by (cases x) auto

lemma addManyFiles_empty_path:
  assumes "(p, c) \<in> set (add_files input)" and "pathParts p = []"
  shows "\<exists>q st'. addManyFiles ev cl st input = (Inl (INVALID_PATH q), st')
          \<or> addManyFiles ev cl st input = (Inl (OPERATION_FAILED ''addManyFiles''), st')"
proof -
  have "\<exists>q. processFiles files = Inl (INVALID_PATH q)" if "(p, c) \<in> set files" for files
    using that
  proof (induction files)
    case Nil
    then show ?case by simp
  next
    case (Cons f files)
    obtain fp fc where f: "f = (fp, fc)"
      by (cases f)
    show ?case
    proof (cases "pathParts fp = []")
      case True
      with f show ?thesis by simp
    next
      case False
      with Cons.prems f assms(2) have "(p, c) \<in> set files"
        by auto
      from Cons.IH [OF this] False f show ?thesis
        by auto
    qed
  qed
  from this [OF assms(1)] obtain q where "processFiles (add_files input) = Inl (INVALID_PATH q)"
    by blast
  with assms(1) show ?thesis
    by (auto simp: addManyFiles_def Let_def split: sum.splits option.splits
             dest!: readCommit_error)
qed

text \<open>
  Claim C3. The claim fails for the add and remove operations: they reject a path only when
  it has no segment, and never look at what a segment is. Adding \<open>a/../b.txt\<close> to a new
  branch succeeds and writes a tree whose directory \<open>a\<close> holds an entry named \<open>..\<close>;
  removing \<open>src/./a.txt\<close> fails, but with \<open>NOT_FOUND\<close> for the missing entry \<open>.\<close>, not with
  \<open>INVALID_PATH\<close>.
\<close>

theorem addManyFiles_accepts_dot_segments:
  "pathParts ''a/../b.txt'' = [''a'', ''..'', ''b.txt'']
   \<and> (case addManyFiles alone exampleClient emptyStore
           \<lparr>add_ref = ''main'', add_files = [(''a/../b.txt'', ''x'')],
            add_commitMessage = None, add_author = None\<rparr> of
        (Inl e, st') \<Rightarrow> False
      | (Inr res, st') \<Rightarrow>
          add_treeSha res =
            TreeOid [TreeEntry ''040000'' ''a''
              (TreeOid [TreeEntry ''040000'' ''..''
                 (TreeOid [TreeEntry ''100644'' ''b.txt'' (BlobOid ''x'') T_blob]) T_tree]) T_tree]
        \<and> refs st' ''refs/heads/main'' = Some (add_commitSha res))
   \<and> pathParts ''src/./a.txt'' = [''src'', ''.'', ''a.txt'']
   \<and> fst (removeManyFiles alone exampleClient mainStore
           \<lparr>rm_ref = ''main'', rm_filePaths = [''src/./a.txt''],
            rm_commitMessage = None, rm_author = None\<rparr>) = Inl (NOT_FOUND ''Path'')"
  by code_simp

section \<open>Conflicts of a merge\<close>

lemma mergeBranches_conflict:
  assumes "mb_resolutions input = None"
    and "resolveRef st (normalizeRef (mb_sourceBranch input)) = Inr sourceSha"
    and "resolveRef st (normalizeRef (mb_destinationBranch input)) = Inr destSha"
    and "findMergeBase destSha sourceSha = baseSha # others"
    and "readCommit baseSha = Inr baseCommit'" and "readCommit sourceSha = Inr sourceCommit"
    and "readCommit destSha = Inr destCommit"
    and "mergeTrees st (Some (commit_tree baseCommit')) (Some (commit_tree destCommit))
           (Some (commit_tree sourceCommit)) [] = (Inr (treeSha, conflicts), st1)"
    and "conflicts \<noteq> []"
  shows "mergeBranches findMergeBase ev cl st input = (Inl (MERGE_CONFLICT conflicts), st1)"
  using assms by (simp add: mergeBranches_def Let_def)

text \<open>
  Claim C4. On a conflict without a resolution map \<open>mergeBranches\<close> does fail with
  \<open>MERGE_CONFLICT\<close> and leaves the destination reference where it was, but what the error
  carries for a conflict below the root is the name of the entry inside its directory,
  not its path: both branches changed \<open>src/a.txt\<close>, and the error names \<open>a.txt\<close>.
\<close>

theorem mergeBranches_conflict_names_entry:
  "resolvePath exampleTree ''src/a.txt''
      = Inr \<lparr>sha = BlobOid ''x'', res_mode = ''100644'', res_type = T_blob\<rparr>
   \<and> resolvePath oursTree ''src/a.txt''
      = Inr \<lparr>sha = BlobOid ''ours'', res_mode = ''100644'', res_type = T_blob\<rparr>
   \<and> resolvePath theirsTree ''src/a.txt''
      = Inr \<lparr>sha = BlobOid ''theirs'', res_mode = ''100644'', res_type = T_blob\<rparr>
   \<and> fst (mergeBranches (\<lambda>a b. [baseCommit]) alone exampleClient conflictStore mergeFeature)
      = Inl (MERGE_CONFLICT [''a.txt''])
   \<and> fst (mergeBranches (\<lambda>a b. [baseCommit]) alone exampleClient conflictStore mergeFeature)
      \<noteq> Inl (MERGE_CONFLICT [''src/a.txt''])
   \<and> refs (snd (mergeBranches (\<lambda>a b. [baseCommit]) alone exampleClient conflictStore mergeFeature))
        ''refs/heads/main'' = Some oursCommit"
  by code_simp

section \<open>Merging into an unchanged branch\<close>


















lemma merge_kind_change_fails:
  "fst (mergeTrees emptyStore (Some exampleTree) (Some exampleTree) (Some fileForDirectoryTree) [])
     = Inl (GitError ''ObjectTypeError'')"
  by code_simp




end
